theory Spec2Isabelle
  imports Main "HOL-Library.Word"
begin

section \<open>pgxpool: the acquired-connection handle (src/pgxpool/conn.go)\<close>

text \<open>
  The handle \<open>pgxpool.Conn\<close> wraps one \<open>puddle.Resource\<close>. \<open>Release\<close> and \<open>Hijack\<close>
  decide what becomes of the resource. The pool primitive (puddle), the driver connection
  and the \<open>Pool\<close> struct are collaborators whose code is not part of the two source
  files; they are modelled below as far as \<open>Release\<close> and \<open>Hijack\<close> touch them.
\<close>

subsection \<open>Data\<close>

text \<open>
  What \<open>Release\<close> reads of the \<open>*pgx.Conn\<close>: \<open>IsClosed()\<close>, \<open>PgConn().IsBusy()\<close> and
  \<open>PgConn().TxStatus()\<close> (a byte).
\<close>

record pgx_Conn =
  IsClosed :: bool
  IsBusy :: bool
  TxStatus :: char

text \<open>
  A \<open>puddle.Resource\<close>: its identity in the pool, its value (the connection of the
  \<open>connResource\<close>) and its creation time (nanoseconds).
\<close>

record Resource =
  rid :: nat
  rconn :: pgx_Conn
  creationTime :: int

text \<open>Where the pool primitive holds a resource.\<close>

datatype res_status = Acquired | Idle | Destroyed | Hijacked

text \<open>
  The goroutine that \<open>Release\<close> starts (conn.go, lines 55 to 64) captures the connection
  and the resource; it is kept as a task that runs later.
\<close>

datatype task = AfterReleaseTask pgx_Conn Resource

text \<open>
  The \<open>Pool\<close> as \<open>Release\<close> sees it: the pool primitive's bookkeeping, the atomic
  \<open>lifetimeDestroyCount\<close> (an int64), the optional \<open>afterRelease\<close> hook, the health-check
  signal, the lifetime configuration with the clock, and the goroutines started so far.
\<close>

record Pool =
  resources :: "nat \<Rightarrow> res_status option"
  lifetimeDestroyCount :: "64 word"
  afterRelease :: "(pgx_Conn \<Rightarrow> bool) option"
  healthCheckPending :: bool
  maxConnLifetime :: int
  now :: int
  spawned :: "task list"

text \<open>
  The handle. Its field \<open>res\<close> is the pointer to the resource, \<open>None\<close> for nil. The
  back-reference \<open>p\<close> of the source is the pool state that every operation takes and
  returns.
\<close>

record Conn =
  res :: "Resource option"

subsection \<open>Collaborators\<close>

text \<open>
  Modelled from the spec: the generic resource-pool primitive, whose code is missing
  (section 6: Release(resource-handle) returns it to the idle set, Destroy(resource-handle)
  removes it permanently, Hijack(resource-handle) detaches it without returning it to the
  idle set).
\<close>

definition Resource_Release :: "Resource \<Rightarrow> Pool \<Rightarrow> Pool" where
  "Resource_Release r pl = pl\<lparr>resources := (resources pl)(rid r \<mapsto> Idle)\<rparr>"

definition Resource_Destroy :: "Resource \<Rightarrow> Pool \<Rightarrow> Pool" where
  "Resource_Destroy r pl = pl\<lparr>resources := (resources pl)(rid r \<mapsto> Destroyed)\<rparr>"

definition Resource_Hijack :: "Resource \<Rightarrow> Pool \<Rightarrow> Pool" where
  "Resource_Hijack r pl = pl\<lparr>resources := (resources pl)(rid r \<mapsto> Hijacked)\<rparr>"

text \<open>
  Modelled from the spec: \<open>Pool.triggerHealthCheck\<close>, whose code is missing (section 4.1:
  a non-blocking signal that wakes the health-check loop; section 9: a single-slot
  pending flag, a signal sent while one is pending coalesces with it).
\<close>

definition triggerHealthCheck :: "Pool \<Rightarrow> Pool" where
  "triggerHealthCheck pl = pl\<lparr>healthCheckPending := True\<rparr>"

text \<open>
  Modelled from the spec: \<open>Pool.isExpired\<close>, whose code is missing (section 4.1: the
  resource's age exceeds the configured maximum lifetime).
\<close>

definition isExpired :: "Pool \<Rightarrow> Resource \<Rightarrow> bool" where
  "isExpired pl r \<longleftrightarrow> now pl - creationTime r > maxConnLifetime pl"

subsection \<open>Release and Hijack\<close>

text \<open>The test of conn.go, line 30.\<close>

definition unhealthy :: "pgx_Conn \<Rightarrow> bool" where
  "unhealthy cn \<longleftrightarrow> IsClosed cn \<or> IsBusy cn \<or> TxStatus cn \<noteq> CHR ''I''"

text \<open>
  \<open>Conn.Release\<close> (conn.go, lines 21 to 65). It returns the handle, whose \<open>res\<close> is
  cleared, and the pool. When a hook is configured the goroutine is appended to
  \<open>spawned\<close>; it has not run when \<open>Release\<close> returns.
\<close>

definition Release :: "Conn \<Rightarrow> Pool \<Rightarrow> Conn \<times> Pool" where
  "Release c pl =
     (case res c of
        None \<Rightarrow> (c, pl)
      | Some r \<Rightarrow>
          (let cn = rconn r; c' = c\<lparr>res := None\<rparr> in
           if unhealthy cn then
             (c', triggerHealthCheck (Resource_Destroy r pl))
           else if isExpired pl r then
             (c', triggerHealthCheck (Resource_Destroy r
                    (pl\<lparr>lifetimeDestroyCount := lifetimeDestroyCount pl + 1\<rparr>)))
           else if afterRelease pl = None then
             (c', Resource_Release r pl)
           else
             (c', pl\<lparr>spawned := spawned pl @ [AfterReleaseTask cn r]\<rparr>)))"

text \<open>
  The body of the goroutine (conn.go, lines 56 to 63), run at some later point on the pool
  as it is then. The goroutine exists only when the hook is not nil.
\<close>

fun run_task :: "task \<Rightarrow> Pool \<Rightarrow> Pool" where
  "run_task (AfterReleaseTask cn r) pl =
     (case afterRelease pl of
        None \<Rightarrow> pl
      | Some hook \<Rightarrow>
          if hook cn then Resource_Release r pl
          else triggerHealthCheck (Resource_Destroy r pl))"

text \<open>
  \<open>Conn.Hijack\<close> (conn.go, lines 69 to 81). The panic is the error value; otherwise the
  connection is returned with the cleared handle and the pool.
\<close>

datatype panic = Panic string

definition Hijack :: "Conn \<Rightarrow> Pool \<Rightarrow> panic + (pgx_Conn \<times> Conn \<times> Pool)" where
  "Hijack c pl =
     (case res c of
        None \<Rightarrow> Inl (Panic ''cannot hijack already released or hijacked connection'')
      | Some r \<Rightarrow> Inr (rconn r, c\<lparr>res := None\<rparr>, Resource_Hijack r pl))"

section \<open>pgx: batched queries (the unnamed source file, package pgx)\<close>

text \<open>
  A \<open>Batch\<close> queues statements on one connection, sends them in one transmission and
  reads the results back in order. The connection type of this package, the connection
  pool and the message framing are collaborators whose code is not part of the source
  files; they are modelled below as far as the batch code touches them.
\<close>

subsection \<open>Data\<close>

type_synonym Oid = "32 word"

text \<open>A Go \<open>error\<close> value, by its message; \<open>error option\<close> is an \<open>error\<close> that may be nil.\<close>

datatype error = Error string

text \<open>
  A \<open>context.Context\<close> as the batch code reads it: \<open>None\<close> while the \<open>Done()\<close> channel
  is open, \<open>Some e\<close> once it is closed and \<open>Err()\<close> is \<open>e\<close>. A context does not change
  during one call; a cancellation between two calls is another value of the field.
\<close>

type_synonym "context" = "error option"

text \<open>An argument of a statement (\<open>interface{}\<close> in the source).\<close>

datatype arg = ArgNull | ArgInt int | ArgText string

record batchItem =
  query :: string
  arguments :: "arg list"
  parameterOids :: "Oid list"
  resultFormatCodes :: "16 word list"

text \<open>
  The write buffer holds frontend messages. Framing into bytes is outside the batch code
  (spec, section 1), so a buffer is the list of the messages appended to it.
\<close>

datatype fmsg =
    QueryMsg string
  | ParseMsg string string "Oid list"
  | BindMsg string string "Oid list" "arg list" "16 word list"
  | DescribeMsg char string
  | ExecuteMsg string "32 word"
  | SyncMsg

text \<open>The backend messages, by category.\<close>

datatype bmsg =
    ReadyForQuery char
  | CommandComplete string
  | RowDescription "string list"
  | DataRow "string list"
  | NoData
  | ParseComplete
  | BindComplete
  | ErrorResponse string
  | NoticeResponse string
  | ParameterStatus string string

text \<open>What one receive on the network yields: a message or a failure.\<close>

datatype rx_event = Msg bmsg | RecvError error

record PreparedStatement =
  Name :: string
  ParameterOids :: "Oid list"

text \<open>
  The package's \<open>Conn\<close>, as far as the batch code reads and writes it. The struct is
  not in the source files. Fields of the source: \<open>wbuf\<close>, \<open>preparedStatements\<close>,
  \<open>ConnInfo\<close> (here: whether binding these arguments for these parameter types fails)
  and \<open>pendingReadyForQueryCount\<close> (a Go int, 64 bits). The network is \<open>inbox\<close> (what
  the server will deliver, in order; when it is used up a receive waits forever),
  \<open>netWrite\<close> (what \<open>conn.Write\<close> answers: bytes written and error) and \<open>writes\<close> (the
  buffers that a \<open>Write\<close> transmitted without error, oldest first). The methods
  \<open>waitForPreviousCancelQuery\<close>, \<open>initContext\<close> and \<open>termContext\<close> are not in the source
  files and the spec leaves their results open: they are parameters of the connection.
\<close>

record BConn =
  wbuf :: "fmsg list"
  preparedStatements :: "string \<Rightarrow> PreparedStatement option"
  ConnInfo :: "Oid list \<Rightarrow> arg list \<Rightarrow> error option"
  pendingReadyForQueryCount :: "64 word"
  alive :: bool
  inbox :: "rx_event list"
  netWrite :: "fmsg list \<Rightarrow> nat \<times> error option"
  writes :: "fmsg list list"
  waitForPreviousCancelQuery :: "context \<Rightarrow> error option"
  initContext :: "context \<Rightarrow> error option"
  termContext :: "error option \<Rightarrow> error option"

text \<open>
  Modelled from the spec: the connection pool of this package (\<open>ConnPool\<close>), whose code
  is missing. The batch only calls \<open>Release\<close> on it (section 4.2: release the underlying
  connection back to its pool); the calls are counted.
\<close>

record ConnPool =
  releaseCalls :: nat

definition ConnPool_Release :: "ConnPool \<Rightarrow> ConnPool" where
  "ConnPool_Release pl = pl\<lparr>releaseCalls := releaseCalls pl + 1\<rparr>"

text \<open>
  The result set that \<open>QueryResults\<close> hands out; its back-pointer to the batch is the
  batch state returned with it.
\<close>

record Rows =
  sql :: string
  rows_fields :: "string list"

text \<open>
  The \<open>Batch\<close> struct. \<open>conn\<close> is a pointer that \<open>BeginBatch\<close> always sets; the
  connection it points to is reached only through the batch here, so its state is kept in
  the field. \<open>connPool\<close> and \<open>ctx\<close> may be nil (\<open>None\<close>), \<open>err\<close> is the sticky error.
  \<open>resultsRead\<close> is a Go int that only counts calls; it is an unbounded integer here.
\<close>

record Batch =
  conn :: BConn
  connPool :: "ConnPool option"
  items :: "batchItem list"
  resultsRead :: int
  sent :: bool
  ctx :: "context option"
  err :: "error option"

text \<open>
  How a call of a batch method ends: it returns a value and leaves the batch in a state,
  or it panics (a method call on the nil context), or it never returns because it waits
  for a message that does not come.
\<close>

datatype 'r outcome = Returns 'r Batch | Panics Batch | Blocks

text \<open>The value a call returned, and the state it left the batch in, if any.\<close>

fun returned :: "'r outcome \<Rightarrow> 'r option" where
  "returned (Returns r b) = Some r"
| "returned (Panics b) = None"
| "returned Blocks = None"

fun state_after :: "'r outcome \<Rightarrow> Batch option" where
  "state_after (Returns r b) = Some b"
| "state_after (Panics b) = Some b"
| "state_after Blocks = None"

subsection \<open>Collaborators of the batch code\<close>

text \<open>
  Modelled from the spec: the framing functions \<open>appendQuery\<close>, \<open>appendParse\<close>,
  \<open>appendBind\<close>, \<open>appendDescribe\<close>, \<open>appendExecute\<close> and \<open>appendSync\<close>, whose code is
  missing (section 1: each serializes one protocol command). Each appends its message to
  the buffer; \<open>appendBind\<close> is the one that can fail, when \<open>ConnInfo\<close> cannot encode the
  arguments.
\<close>

definition appendQuery :: "fmsg list \<Rightarrow> string \<Rightarrow> fmsg list" where
  "appendQuery buf q = buf @ [QueryMsg q]"

definition appendParse :: "fmsg list \<Rightarrow> string \<Rightarrow> string \<Rightarrow> Oid list \<Rightarrow> fmsg list" where
  "appendParse buf name q oids = buf @ [ParseMsg name q oids]"

definition appendBind ::
  "fmsg list \<Rightarrow> string \<Rightarrow> string \<Rightarrow> (Oid list \<Rightarrow> arg list \<Rightarrow> error option) \<Rightarrow> Oid list \<Rightarrow>
   arg list \<Rightarrow> 16 word list \<Rightarrow> error + fmsg list" where
  "appendBind buf portal ps ci oids args fmts =
     (case ci oids args of
        Some e \<Rightarrow> Inl e
      | None \<Rightarrow> Inr (buf @ [BindMsg portal ps oids args fmts]))"

definition appendDescribe :: "fmsg list \<Rightarrow> char \<Rightarrow> string \<Rightarrow> fmsg list" where
  "appendDescribe buf kind name = buf @ [DescribeMsg kind name]"

definition appendExecute :: "fmsg list \<Rightarrow> string \<Rightarrow> 32 word \<Rightarrow> fmsg list" where
  "appendExecute buf portal maxRows = buf @ [ExecuteMsg portal maxRows]"

definition appendSync :: "fmsg list \<Rightarrow> fmsg list" where
  "appendSync buf = buf @ [SyncMsg]"

text \<open>
  Modelled from the spec: \<open>Conn.die\<close>, whose code is missing (section 4.2: marks the
  underlying connection dead).
\<close>

definition Conn_die :: "error option \<Rightarrow> BConn \<Rightarrow> BConn" where
  "Conn_die e c = c\<lparr>alive := False\<rparr>"

text \<open>
  Modelled from the spec: \<open>Conn.rxMsg\<close>, whose code is missing (section 6: the low-level
  message receive primitive). It takes the next event of the network; \<open>None\<close> means that
  the call never returns.
\<close>

definition rxMsg :: "BConn \<Rightarrow> ((error + bmsg) \<times> BConn) option" where
  "rxMsg c =
     (case inbox c of
        [] \<Rightarrow> None
      | Msg m # rest \<Rightarrow> Some (Inr m, c\<lparr>inbox := rest\<rparr>)
      | RecvError e # rest \<Rightarrow> Some (Inl e, c\<lparr>inbox := rest\<rparr>))"

text \<open>
  Modelled from the spec: \<open>Conn.processContextFreeMsg\<close>, whose code is missing (section
  4.2: response messages are consumed generically: errors, notices, parameter and status
  updates; the count of outstanding ReadyForQuery acknowledgements says how many
  idle-markers are still to come). An error response is returned as the error, a
  ReadyForQuery takes one off the count, every other message is consumed.
\<close>

definition processContextFreeMsg :: "bmsg \<Rightarrow> BConn \<Rightarrow> error option \<times> BConn" where
  "processContextFreeMsg m c =
     (case m of
        ErrorResponse s \<Rightarrow> (Some (Error s), c)
      | ReadyForQuery t \<Rightarrow>
          (None, c\<lparr>pendingReadyForQueryCount := pendingReadyForQueryCount c - 1\<rparr>)
      | _ \<Rightarrow> (None, c))"

lemma rxMsg_inbox: "rxMsg c = Some (x, c1) \<Longrightarrow> length (inbox c1) < length (inbox c)"
  by (auto simp: rxMsg_def split: list.splits rx_event.splits)

lemma processContextFreeMsg_inbox: "(e, c1) = processContextFreeMsg m c \<Longrightarrow> inbox c1 = inbox c"
  by (auto simp: processContextFreeMsg_def split: bmsg.splits)

text \<open>
  Modelled from the spec: \<open>Conn.ensureConnectionReadyForQuery\<close>, whose code is missing
  (section 4.2: ensures that the connection is in a ready-for-query idle state and fails
  if not; the count says how many idle-markers to expect before the connection is usable
  again). While acknowledgements are outstanding it receives and consumes messages; a
  receive failure or an error response is the failure.
\<close>

function ensureConnectionReadyForQuery :: "BConn \<Rightarrow> (error option \<times> BConn) option" where
  "ensureConnectionReadyForQuery c =
     (if 0 < sint (pendingReadyForQueryCount c) then
        (case rxMsg c of
           None \<Rightarrow> None
         | Some (Inl e, c1) \<Rightarrow> Some (Some e, c1)
         | Some (Inr m, c1) \<Rightarrow>
             (case processContextFreeMsg m c1 of
                (Some e, c2) \<Rightarrow> Some (Some e, c2)
              | (None, c2) \<Rightarrow> ensureConnectionReadyForQuery c2))
      else Some (None, c))"
  by pat_completeness auto
termination
  by (relation "measure (\<lambda>c. length (inbox c))")
    (auto dest!: rxMsg_inbox processContextFreeMsg_inbox)

declare ensureConnectionReadyForQuery.simps [simp del]

text \<open>
  Modelled from the spec: \<open>Conn.readUntilRowDescription\<close>, whose code is missing (section
  4.2: reads through to a row-description message). Other messages are consumed
  generically on the way.
\<close>

function readUntilRowDescription :: "BConn \<Rightarrow> ((string list \<times> error option) \<times> BConn) option" where
  "readUntilRowDescription c =
     (case rxMsg c of
        None \<Rightarrow> None
      | Some (Inl e, c1) \<Rightarrow> Some (([], Some e), c1)
      | Some (Inr m, c1) \<Rightarrow>
          (case m of
             RowDescription fs \<Rightarrow> Some ((fs, None), c1)
           | _ \<Rightarrow>
               (case processContextFreeMsg m c1 of
                  (Some e, c2) \<Rightarrow> Some (([], Some e), c2)
                | (None, c2) \<Rightarrow> readUntilRowDescription c2)))"
  by pat_completeness auto
termination
  by (relation "measure (\<lambda>c. length (inbox c))")
    (auto dest!: rxMsg_inbox processContextFreeMsg_inbox)

declare readUntilRowDescription.simps [simp del]

text \<open>
  Modelled from the spec: \<open>Conn.getRows\<close>, whose code is missing (section 4.2: a
  streaming result-row cursor). It yields a fresh result set for the statement text.
\<close>

definition getRows :: "BConn \<Rightarrow> string \<Rightarrow> Rows" where
  "getRows c q = \<lparr>sql = q, rows_fields = []\<rparr>"

subsection \<open>The batch operations\<close>

text \<open>\<open>Conn.BeginBatch\<close> (lines 30 to 32) and \<open>Batch.Queue\<close> (lines 42 to 49).\<close>

definition BeginBatch :: "BConn \<Rightarrow> Batch" where
  "BeginBatch c =
     \<lparr>conn = c, connPool = None, items = [], resultsRead = 0, sent = False, ctx = None,
      err = None\<rparr>"

definition Queue :: "string \<Rightarrow> arg list \<Rightarrow> Oid list \<Rightarrow> 16 word list \<Rightarrow> Batch \<Rightarrow> Batch" where
  "Queue q args oids fmts b =
     b\<lparr>items := items b @
        [\<lparr>query = q, arguments = args, parameterOids = oids, resultFormatCodes = fmts\<rparr>]\<rparr>"

text \<open>
  The statement \<open>if b.conn != nil && b.connPool != nil { b.connPool.Release(b.conn) }\<close>,
  which \<open>die\<close> (lines 240 to 242) and the deferred function of \<open>Close\<close> (lines 214 to
  216) share. Then \<open>Batch.die\<close> (lines 232 to 243); its argument may be a nil error, as
  the callers pass \<open>b.ctx.Err()\<close>.
\<close>

definition release_to_pool :: "Batch \<Rightarrow> Batch" where
  "release_to_pool b =
     (case connPool b of
        None \<Rightarrow> b
      | Some pl \<Rightarrow> b\<lparr>connPool := Some (ConnPool_Release pl)\<rparr>)"

definition die :: "error option \<Rightarrow> Batch \<Rightarrow> Batch" where
  "die e b =
     (if err b \<noteq> None then b
      else release_to_pool (b\<lparr>err := e, conn := Conn_die e (conn b)\<rparr>))"

text \<open>
  The loop over the queued items in \<open>Send\<close> (lines 77 to 97): it extends the buffer, or
  stops at the first \<open>appendBind\<close> that fails.
\<close>

fun Send_items :: "BConn \<Rightarrow> fmsg list \<Rightarrow> batchItem list \<Rightarrow> error + fmsg list" where
  "Send_items c buf [] = Inr buf"
| "Send_items c buf (bi # bis) =
     (let (psName, psParameterOids, buf1) =
        (case preparedStatements c (query bi) of
           Some ps \<Rightarrow> (Name ps, ParameterOids ps, buf)
         | None \<Rightarrow> ('''', parameterOids bi, appendParse buf '''' (query bi) (parameterOids bi)))
      in
        case appendBind buf1 '''' psName (ConnInfo c) psParameterOids (arguments bi)
               (resultFormatCodes bi) of
          Inl e \<Rightarrow> Inl e
        | Inr buf2 \<Rightarrow>
            Send_items c (appendExecute (appendDescribe buf2 CHR ''P'' '''') '''' 0) bis)"

text \<open>The read loop that ends \<open>Send\<close> (lines 115 to 129).\<close>

function Send_read :: "BConn \<Rightarrow> (error option \<times> BConn) option" where
  "Send_read c =
     (case rxMsg c of
        None \<Rightarrow> None
      | Some (Inl e, c1) \<Rightarrow> Some (Some e, c1)
      | Some (Inr m, c1) \<Rightarrow>
          (case m of
             ReadyForQuery t \<Rightarrow> Some (None, c1)
           | _ \<Rightarrow>
               (case processContextFreeMsg m c1 of
                  (Some e, c2) \<Rightarrow> Some (Some e, c2)
                | (None, c2) \<Rightarrow> Send_read c2)))"
  by pat_completeness auto
termination
  by (relation "measure (\<lambda>c. length (inbox c))")
    (auto dest!: rxMsg_inbox processContextFreeMsg_inbox)

declare Send_read.simps [simp del]

text \<open>
  \<open>Batch.Send\<close> (lines 54 to 132). \<open>beginSQL\<close> (a method of the transaction options)
  and \<open>fatalWriteErr\<close> are functions of the package that are not in the source files; they
  are parameters.
\<close>

definition Send ::
  "('tx \<Rightarrow> string) \<Rightarrow> (nat \<Rightarrow> error \<Rightarrow> bool) \<Rightarrow> context \<Rightarrow> 'tx \<Rightarrow> Batch \<Rightarrow> error option outcome" where
  "Send beginSQL fatalWriteErr cx txOptions b =
     (case err b of
        Some e \<Rightarrow> Returns (Some e) b
      | None \<Rightarrow>
          (let b1 = b\<lparr>ctx := Some cx\<rparr> in
           case waitForPreviousCancelQuery (conn b1) cx of
             Some e \<Rightarrow> Returns (Some e) b1
           | None \<Rightarrow>
               (case ensureConnectionReadyForQuery (conn b1) of
                  None \<Rightarrow> Blocks
                | Some (Some e, c1) \<Rightarrow> Returns (Some e) (b1\<lparr>conn := c1\<rparr>)
                | Some (None, c1) \<Rightarrow>
                    (case initContext c1 cx of
                       Some e \<Rightarrow> Returns (Some e) (b1\<lparr>conn := c1\<rparr>)
                     | None \<Rightarrow>
                         (case Send_items c1 (appendQuery (wbuf c1) (beginSQL txOptions))
                                 (items b1) of
                            Inl e \<Rightarrow> Returns (Some e) (b1\<lparr>conn := c1\<rparr>)
                          | Inr buf0 \<Rightarrow>
                              (let buf = appendQuery (appendSync buf0) ''commit'' in
                               case netWrite c1 buf of
                                 (n, Some e) \<Rightarrow>
                                   Returns (Some e)
                                     (b1\<lparr>conn := (if fatalWriteErr n e then Conn_die (Some e) c1
                                                    else c1)\<rparr>)
                               | (n, None) \<Rightarrow>
                                   (let c2 = c1\<lparr>writes := writes c1 @ [buf]\<rparr>;
                                        c3 = c2\<lparr>pendingReadyForQueryCount :=
                                                  pendingReadyForQueryCount c2 + 2\<rparr>;
                                        b2 = b1\<lparr>conn := c3, sent := True\<rparr>
                                    in case Send_read c3 of
                                         None \<Rightarrow> Blocks
                                       | Some (e, c4) \<Rightarrow> Returns e (b2\<lparr>conn := c4\<rparr>))))))))"

text \<open>The read loop of \<open>ExecResults\<close> (lines 150 to 164).\<close>

function ExecResults_read :: "BConn \<Rightarrow> ((string \<times> error option) \<times> BConn) option" where
  "ExecResults_read c =
     (case rxMsg c of
        None \<Rightarrow> None
      | Some (Inl e, c1) \<Rightarrow> Some (('''', Some e), c1)
      | Some (Inr m, c1) \<Rightarrow>
          (case m of
             CommandComplete t \<Rightarrow> Some ((t, None), c1)
           | _ \<Rightarrow>
               (case processContextFreeMsg m c1 of
                  (Some e, c2) \<Rightarrow> Some (('''', Some e), c2)
                | (None, c2) \<Rightarrow> ExecResults_read c2)))"
  by pat_completeness auto
termination
  by (relation "measure (\<lambda>c. length (inbox c))")
    (auto dest!: rxMsg_inbox processContextFreeMsg_inbox)

declare ExecResults_read.simps [simp del]

text \<open>
  \<open>Batch.ExecResults\<close> (lines 136 to 165). It returns the command tag and the error.
  With a nil context (a batch that was never sent) \<open>b.ctx.Done()\<close> panics.
\<close>

definition ExecResults :: "Batch \<Rightarrow> (string \<times> error option) outcome" where
  "ExecResults b =
     (case err b of
        Some e \<Rightarrow> Returns ('''', Some e) b
      | None \<Rightarrow>
          (case ctx b of
             None \<Rightarrow> Panics b
           | Some (Some ce) \<Rightarrow> Returns ('''', Some ce) (die (Some ce) b)
           | Some None \<Rightarrow>
               (let b1 = b\<lparr>resultsRead := resultsRead b + 1\<rparr> in
                case ExecResults_read (conn b1) of
                  None \<Rightarrow> Blocks
                | Some (r, c1) \<Rightarrow> Returns r (b1\<lparr>conn := c1\<rparr>))))"

text \<open>
  \<open>Batch.QueryResults\<close> (lines 169 to 194). It returns the result set (\<open>None\<close> for nil)
  and the error. When reading fails it calls \<open>b.die(b.ctx.Err())\<close>, with the error of the
  context and not the error of the read; the context was found open some lines before, so
  that error is nil.
\<close>

definition QueryResults :: "Batch \<Rightarrow> (Rows option \<times> error option) outcome" where
  "QueryResults b =
     (case err b of
        Some e \<Rightarrow> Returns (None, Some e) b
      | None \<Rightarrow>
          (case ctx b of
             None \<Rightarrow> Panics b
           | Some (Some ce) \<Rightarrow> Returns (None, Some ce) (die (Some ce) b)
           | Some None \<Rightarrow>
               (let b1 = b\<lparr>resultsRead := resultsRead b + 1\<rparr>;
                    rows = getRows (conn b1) ''batch query''
                in case readUntilRowDescription (conn b1) of
                     None \<Rightarrow> Blocks
                   | Some ((fs, Some e), c1) \<Rightarrow>
                       Returns (None, Some e) (die None (b1\<lparr>conn := c1\<rparr>))
                   | Some ((fs, None), c1) \<Rightarrow>
                       Returns (Some (rows\<lparr>rows_fields := fs\<rparr>), None) (b1\<lparr>conn := c1\<rparr>))))"

text \<open>
  \<open>Batch.QueryRowResults\<close> (lines 198 to 202): the error of \<open>QueryResults\<close> is dropped
  and the result set is returned as a row.
\<close>

definition QueryRowResults :: "Batch \<Rightarrow> Rows option outcome" where
  "QueryRowResults b =
     (case QueryResults b of
        Returns (rows, e) b1 \<Rightarrow> Returns rows b1
      | Panics b1 \<Rightarrow> Panics b1
      | Blocks \<Rightarrow> Blocks)"

lemma die_items: "items (die e b) = items b"
  by (simp add: die_def release_to_pool_def split: option.splits)

lemma ExecResults_items: "ExecResults b = Returns r b1 \<Longrightarrow> items b1 = items b"
  by (auto simp: ExecResults_def Let_def die_items split: option.splits)

text \<open>
  The loop of \<open>Close\<close> (lines 219 to 223): \<open>i\<close> starts at \<open>b.resultsRead\<close> and every
  round calls \<open>ExecResults\<close>.
\<close>

function Close_loop :: "int \<Rightarrow> Batch \<Rightarrow> error option outcome" where
  "Close_loop i b =
     (if i < int (length (items b)) then
        (case ExecResults b of
           Returns (t, Some e) b1 \<Rightarrow> Returns (Some e) b1
         | Returns (t, None) b1 \<Rightarrow> Close_loop (i + 1) b1
         | Panics b1 \<Rightarrow> Panics b1
         | Blocks \<Rightarrow> Blocks)
      else Returns None b)"
  by pat_completeness auto
termination
  by (relation "measure (\<lambda>(i, b). nat (int (length (items b)) - i))")
    (auto dest: ExecResults_items)

declare Close_loop.simps [simp del]

text \<open>
  The deferred function of \<open>Close\<close> (lines 212 to 217). It runs when the body returns,
  with the error the body returns, and also when the body panics; then the panic goes on.
\<close>

definition Close_deferred :: "error option outcome \<Rightarrow> error option outcome" where
  "Close_deferred body =
     (case body of
        Returns e b \<Rightarrow> Returns (termContext (conn b) e) (release_to_pool b)
      | Panics b \<Rightarrow> Panics (release_to_pool b)
      | Blocks \<Rightarrow> Blocks)"

text \<open>
  \<open>Batch.Close\<close> (lines 207 to 230). The sticky error is returned before the deferred
  function is set up.
\<close>

definition Close :: "Batch \<Rightarrow> error option outcome" where
  "Close b =
     (case err b of
        Some e \<Rightarrow> Returns (Some e) b
      | None \<Rightarrow>
          Close_deferred
            (case Close_loop (resultsRead b) b of
               Returns (Some e) b1 \<Rightarrow> Returns (Some e) b1
             | Returns None b1 \<Rightarrow>
                 (case ensureConnectionReadyForQuery (conn b1) of
                    None \<Rightarrow> Blocks
                  | Some (Some e, c1) \<Rightarrow> Returns (Some e) (b1\<lparr>conn := c1\<rparr>)
                  | Some (None, c1) \<Rightarrow> Returns None (b1\<lparr>conn := c1\<rparr>))
             | Panics b1 \<Rightarrow> Panics b1
             | Blocks \<Rightarrow> Blocks))"

section \<open>Definitions for the statements\<close>

subsection \<open>In the words of the spec\<close>

text \<open>
  Spec, section 4.2, Send, step 3: for each queued item a Parse step (skipped, and the
  cached prepared-statement name reused, if the statement text is in the connection's
  prepared-statement cache), a Bind step with the arguments and the result formats, a
  Describe step and an Execute step with no row limit; and around the items a
  begin-transaction statement in front, then one Sync and the literal \<open>commit\<close>.
\<close>

definition spec_item_frames :: "BConn \<Rightarrow> batchItem \<Rightarrow> fmsg list" where
  "spec_item_frames c bi =
     (case preparedStatements c (query bi) of
        Some ps \<Rightarrow>
          [BindMsg '''' (Name ps) (ParameterOids ps) (arguments bi) (resultFormatCodes bi)]
      | None \<Rightarrow>
          [ParseMsg '''' (query bi) (parameterOids bi),
           BindMsg '''' '''' (parameterOids bi) (arguments bi) (resultFormatCodes bi)])
     @ [DescribeMsg CHR ''P'' '''', ExecuteMsg '''' 0]"

definition spec_transmission :: "string \<Rightarrow> BConn \<Rightarrow> batchItem list \<Rightarrow> fmsg list" where
  "spec_transmission begin c its =
     [QueryMsg begin] @ concat (map (spec_item_frames c) its) @ [SyncMsg, QueryMsg ''commit'']"

text \<open>
  Spec, section 4.2, Send, step 6: response messages are consumed until a ReadyForQuery is
  observed. An event of the network is a ReadyForQuery, or it is a failure (a failed
  receive, or an error response), or it is consumed and the reading goes on.
\<close>

fun is_ReadyForQuery :: "rx_event \<Rightarrow> bool" where
  "is_ReadyForQuery (Msg (ReadyForQuery t)) = True"
| "is_ReadyForQuery ev = False"

fun failure_of :: "rx_event \<Rightarrow> error option" where
  "failure_of (RecvError e) = Some e"
| "failure_of (Msg (ErrorResponse s)) = Some (Error s)"
| "failure_of ev = None"

text \<open>
  Spec, section 4.2, Close: the items that are left are force-consumed as if
  \<open>ExecResults\<close> were called for each. This is \<open>n\<close> calls of \<open>ExecResults\<close>, one after
  the other as a caller makes them: a call that returns an error, panics or never
  returns ends the sequence.
\<close>

fun ExecResults_times :: "nat \<Rightarrow> Batch \<Rightarrow> error option outcome" where
  "ExecResults_times 0 b = Returns None b"
| "ExecResults_times (Suc n) b =
     (case ExecResults b of
        Returns (t, Some e) b1 \<Rightarrow> Returns (Some e) b1
      | Returns (t, None) b1 \<Rightarrow> ExecResults_times n b1
      | Panics b1 \<Rightarrow> Panics b1
      | Blocks \<Rightarrow> Blocks)"

text \<open>
  The outcome of a call, with the queued items of the state it leaves replaced: used to
  say that a call does not look at the items.
\<close>

fun with_items :: "batchItem list \<Rightarrow> 'r outcome \<Rightarrow> 'r outcome" where
  "with_items its (Returns r b) = Returns r (b\<lparr>items := its\<rparr>)"
| "with_items its (Panics b) = Panics (b\<lparr>items := its\<rparr>)"
| "with_items its Blocks = Blocks"

subsection \<open>The frame of the read loops\<close>

text \<open>
  Receiving and consuming messages changes the inbox and the count of outstanding
  acknowledgements, and nothing else of the connection.
\<close>

definition same_but_rx :: "BConn \<Rightarrow> BConn \<Rightarrow> bool" where
  "same_but_rx c c1 \<longleftrightarrow>
     wbuf c1 = wbuf c \<and> preparedStatements c1 = preparedStatements c \<and>
     ConnInfo c1 = ConnInfo c \<and> alive c1 = alive c \<and> netWrite c1 = netWrite c \<and>
     writes c1 = writes c \<and> waitForPreviousCancelQuery c1 = waitForPreviousCancelQuery c \<and>
     initContext c1 = initContext c \<and> termContext c1 = termContext c"

section \<open>Example inputs\<close>

subsection \<open>Pooled handles\<close>

text \<open>
  A pool with resource 0 acquired and no hook, at time 5 with a maximum lifetime of 10; a
  resource whose connection is closed, a healthy one, and a healthy one created at time
  -20.
\<close>

definition ex_pool :: Pool where
  "ex_pool =
     \<lparr>resources = Map.empty(0 \<mapsto> Acquired), lifetimeDestroyCount = 7, afterRelease = None,
      healthCheckPending = False, maxConnLifetime = 10, now = 5, spawned = []\<rparr>"

definition ex_closed_res :: Resource where
  "ex_closed_res =
     \<lparr>rid = 0, rconn = \<lparr>IsClosed = True, IsBusy = False, TxStatus = CHR ''I''\<rparr>,
      creationTime = 0\<rparr>"

definition ex_healthy_res :: Resource where
  "ex_healthy_res =
     \<lparr>rid = 0, rconn = \<lparr>IsClosed = False, IsBusy = False, TxStatus = CHR ''I''\<rparr>,
      creationTime = 0\<rparr>"

definition ex_old_res :: Resource where
  "ex_old_res =
     \<lparr>rid = 0, rconn = \<lparr>IsClosed = False, IsBusy = False, TxStatus = CHR ''I''\<rparr>,
      creationTime = - 20\<rparr>"

subsection \<open>Batches\<close>

text \<open>
  A connection with an empty write buffer, the statement \<open>ps1\<close> prepared, an encoder
  that accepts every argument, a network that accepts every write, no cancellation in
  flight and a context that can be watched. The server's answers are put in by
  \<open>ex_conn\<close>.
\<close>

definition ex_conn :: "rx_event list \<Rightarrow> BConn" where
  "ex_conn evs =
     \<lparr>wbuf = [],
      preparedStatements =
        (\<lambda>q. if q = ''ps1'' then Some \<lparr>Name = ''ps1'', ParameterOids = [23]\<rparr> else None),
      ConnInfo = (\<lambda>oids args. None),
      pendingReadyForQueryCount = 0,
      alive = True,
      inbox = evs,
      netWrite = (\<lambda>buf. (length buf, None)),
      writes = [],
      waitForPreviousCancelQuery = (\<lambda>cx. None),
      initContext = (\<lambda>cx. cx),
      termContext = (\<lambda>e. e)\<rparr>"

text \<open>
  What a server answers to a batch of one insert: to \<open>begin\<close>, to the four steps of
  the item, to the Sync and to \<open>commit\<close>.
\<close>

definition ex_answers1 :: "rx_event list" where
  "ex_answers1 =
     map Msg
       [CommandComplete ''BEGIN'', ReadyForQuery CHR ''T'',
        ParseComplete, BindComplete, NoData, CommandComplete ''INSERT 0 1'',
        ReadyForQuery CHR ''T'',
        CommandComplete ''COMMIT'', ReadyForQuery CHR ''I'']"

text \<open>The same for a batch of two statements, the first of them prepared.\<close>

definition ex_answers2 :: "rx_event list" where
  "ex_answers2 =
     map Msg
       [CommandComplete ''BEGIN'', ReadyForQuery CHR ''T'',
        BindComplete, NoData, CommandComplete ''UPDATE 1'',
        ParseComplete, BindComplete, NoData, CommandComplete ''INSERT 0 1'',
        ReadyForQuery CHR ''T'',
        CommandComplete ''COMMIT'', ReadyForQuery CHR ''I'']"

text \<open>A batch of one insert, and a batch of two statements that belongs to a pool.\<close>

definition ex_batch1 :: "rx_event list \<Rightarrow> Batch" where
  "ex_batch1 evs = Queue ''insert into t values (1)'' [] [] [] (BeginBatch (ex_conn evs))"

definition ex_batch2 :: "rx_event list \<Rightarrow> Batch" where
  "ex_batch2 evs =
     Queue ''insert into t values ($1)'' [ArgInt 5] [23] [1]
       (Queue ''ps1'' [ArgInt 4] [] []
          ((BeginBatch (ex_conn evs))\<lparr>connPool := Some \<lparr>releaseCalls = 0\<rparr>\<rparr>))"

text \<open>
  The package functions that \<open>Send\<close> takes as parameters: the transaction options are
  the text that follows \<open>begin\<close>, and a write error is fatal when bytes were written.
\<close>

definition ex_beginSQL :: "string \<Rightarrow> string" where
  "ex_beginSQL opts = ''begin'' @ opts"

definition ex_fatalWriteErr :: "nat \<Rightarrow> error \<Rightarrow> bool" where
  "ex_fatalWriteErr n e \<longleftrightarrow> 0 < n"

text \<open>
  The two batches after \<open>Send\<close> has written them: \<open>k\<close> acknowledgements outstanding,
  \<open>n\<close> results read, \<open>evs\<close> still to come from the server and, for the pooled one,
  \<open>rel\<close> calls of the pool's \<open>Release\<close> so far.
\<close>

definition ex_sent1 :: "64 word \<Rightarrow> int \<Rightarrow> rx_event list \<Rightarrow> Batch" where
  "ex_sent1 k n evs =
     (ex_batch1 evs)
       \<lparr>ctx := Some None, sent := True, resultsRead := n,
        conn := (ex_conn evs)
          \<lparr>pendingReadyForQueryCount := k,
           writes :=
             [[QueryMsg ''begin'',
               ParseMsg '''' ''insert into t values (1)'' [],
               BindMsg '''' '''' [] [] [],
               DescribeMsg CHR ''P'' '''', ExecuteMsg '''' 0,
               SyncMsg, QueryMsg ''commit'']]\<rparr>\<rparr>"

definition ex_sent2 :: "64 word \<Rightarrow> int \<Rightarrow> nat \<Rightarrow> rx_event list \<Rightarrow> Batch" where
  "ex_sent2 k n rel evs =
     (ex_batch2 evs)
       \<lparr>ctx := Some None, sent := True, resultsRead := n,
        connPool := Some \<lparr>releaseCalls = rel\<rparr>,
        conn := (ex_conn evs)
          \<lparr>pendingReadyForQueryCount := k,
           writes :=
             [[QueryMsg ''begin read only'',
               BindMsg '''' ''ps1'' [23] [ArgInt 4] [],
               DescribeMsg CHR ''P'' '''', ExecuteMsg '''' 0,
               ParseMsg '''' ''insert into t values ($1)'' [23],
               BindMsg '''' '''' [23] [ArgInt 5] [1],
               DescribeMsg CHR ''P'' '''', ExecuteMsg '''' 0,
               SyncMsg, QueryMsg ''commit'']]\<rparr>\<rparr>"

text \<open>
  What a server answers to the batch of two statements when the first of them fails at
  execution: the error, then the ReadyForQuery of the Sync in a failed transaction, and
  to \<open>commit\<close> a rollback.
\<close>

definition ex_answers2_fail :: "rx_event list" where
  "ex_answers2_fail =
     map Msg
       [CommandComplete ''BEGIN'', ReadyForQuery CHR ''T'',
        BindComplete, ErrorResponse ''division by zero'',
        ReadyForQuery CHR ''E'',
        CommandComplete ''ROLLBACK'', ReadyForQuery CHR ''I'']"

section \<open>Properties of the pooled handle\<close>

text \<open>
  C1. A handle holds an acquired resource \<open>r\<close>. If the connection of \<open>r\<close> is closed, or
  busy, or its transaction status is not \<open>I\<close>, then \<open>Release\<close> clears the handle, leaves
  the resource destroyed, raises the health-check signal and starts no goroutine.
  Consequently a resource that \<open>Release\<close> leaves in the idle set has a connection that is
  not closed, not busy and of transaction status \<open>I\<close>; and so has every resource that a
  goroutine started by this \<open>Release\<close> moves into the idle set, whenever it runs.
\<close>

theorem Release_unhealthy_destroys:
  assumes "res c = Some r" and "resources pl (rid r) = Some Acquired"
  shows "(IsClosed (rconn r) \<or> IsBusy (rconn r) \<or> TxStatus (rconn r) \<noteq> CHR ''I'' \<longrightarrow>
            res (fst (Release c pl)) = None \<and>
            resources (snd (Release c pl)) (rid r) = Some Destroyed \<and>
            healthCheckPending (snd (Release c pl)) \<and>
            spawned (snd (Release c pl)) = spawned pl)
       \<and> (resources (snd (Release c pl)) (rid r) = Some Idle \<longrightarrow>
            \<not> IsClosed (rconn r) \<and> \<not> IsBusy (rconn r) \<and> TxStatus (rconn r) = CHR ''I'')
       \<and> (\<forall>t pl2 i. t \<in> set (spawned (snd (Release c pl))) - set (spawned pl) \<and>
              resources (run_task t pl2) i = Some Idle \<and> resources pl2 i \<noteq> Some Idle \<longrightarrow>
            i = rid r \<and>
            \<not> IsClosed (rconn r) \<and> \<not> IsBusy (rconn r) \<and> TxStatus (rconn r) = CHR ''I'')"
  using assms
  by (auto simp: Release_def Let_def unhealthy_def triggerHealthCheck_def Resource_Destroy_def
      Resource_Release_def split: option.splits if_splits)

theorem Release_unhealthy_destroys_witness:
  "res \<lparr>res = Some ex_closed_res\<rparr> = Some ex_closed_res \<and>
   resources ex_pool (rid ex_closed_res) = Some Acquired \<and>
   IsClosed (rconn ex_closed_res) \<and>
   res (fst (Release \<lparr>res = Some ex_closed_res\<rparr> ex_pool)) = None \<and>
   resources (snd (Release \<lparr>res = Some ex_closed_res\<rparr> ex_pool)) (rid ex_closed_res) =
     Some Destroyed \<and>
   healthCheckPending (snd (Release \<lparr>res = Some ex_closed_res\<rparr> ex_pool)) \<and>
   spawned (snd (Release \<lparr>res = Some ex_closed_res\<rparr> ex_pool)) = spawned ex_pool \<and>
   resources (snd (Release \<lparr>res = Some ex_healthy_res\<rparr> ex_pool)) (rid ex_healthy_res) =
     Some Idle \<and>
   \<not> IsClosed (rconn ex_healthy_res) \<and> \<not> IsBusy (rconn ex_healthy_res) \<and>
   TxStatus (rconn ex_healthy_res) = CHR ''I''"
  using Release_unhealthy_destroys [of "\<lparr>res = Some ex_closed_res\<rparr>" ex_closed_res ex_pool]
    Release_unhealthy_destroys [of "\<lparr>res = Some ex_healthy_res\<rparr>" ex_healthy_res ex_pool]
  by (simp add: ex_closed_res_def ex_healthy_res_def ex_pool_def Release_def unhealthy_def
      isExpired_def Resource_Release_def)

text \<open>
  C2. A handle holds a resource \<open>r\<close> whose connection is not closed, not busy and of
  transaction status \<open>I\<close>, and whose age (the clock minus the creation time) exceeds the
  maximum lifetime. Then \<open>Release\<close> adds exactly 1 to \<open>lifetimeDestroyCount\<close> (an int64,
  so the sum is taken modulo 2^64), leaves the resource destroyed and so not idle, raises
  the health-check signal, clears the handle and starts no goroutine: the hook, which only
  a goroutine calls, is not invoked.
\<close>

theorem Release_expired_destroys:
  assumes "res c = Some r"
    and "\<not> IsClosed (rconn r)" and "\<not> IsBusy (rconn r)" and "TxStatus (rconn r) = CHR ''I''"
    and "now pl - creationTime r > maxConnLifetime pl"
  shows "lifetimeDestroyCount (snd (Release c pl)) = lifetimeDestroyCount pl + 1
       \<and> resources (snd (Release c pl)) (rid r) = Some Destroyed
       \<and> resources (snd (Release c pl)) (rid r) \<noteq> Some Idle
       \<and> healthCheckPending (snd (Release c pl))
       \<and> spawned (snd (Release c pl)) = spawned pl
       \<and> res (fst (Release c pl)) = None"
  using assms
  by (simp add: Release_def Let_def unhealthy_def isExpired_def triggerHealthCheck_def
      Resource_Destroy_def)

theorem Release_expired_destroys_witness:
  "res \<lparr>res = Some ex_old_res\<rparr> = Some ex_old_res \<and>
   \<not> IsClosed (rconn ex_old_res) \<and> \<not> IsBusy (rconn ex_old_res) \<and>
   TxStatus (rconn ex_old_res) = CHR ''I'' \<and>
   now ex_pool - creationTime ex_old_res > maxConnLifetime ex_pool \<and>
   lifetimeDestroyCount (snd (Release \<lparr>res = Some ex_old_res\<rparr> ex_pool)) = 8 \<and>
   resources (snd (Release \<lparr>res = Some ex_old_res\<rparr> ex_pool)) (rid ex_old_res) =
     Some Destroyed \<and>
   healthCheckPending (snd (Release \<lparr>res = Some ex_old_res\<rparr> ex_pool)) \<and>
   spawned (snd (Release \<lparr>res = Some ex_old_res\<rparr> ex_pool)) = []"
  using Release_expired_destroys [of "\<lparr>res = Some ex_old_res\<rparr>" ex_old_res ex_pool]
  by (simp add: ex_old_res_def ex_pool_def)

text \<open>
  C3. Whatever a handle held, after \<open>Release\<close> and after a \<open>Hijack\<close> that returned, its
  reference is cleared. On a handle with a cleared reference, \<open>Release\<close> changes neither
  the handle nor the pool, whatever state the pool is in by then, and \<open>Hijack\<close> panics. So
  releasing twice is the same as releasing once.
\<close>

theorem Release_Hijack_once:
  "(let (c1, pl1) = Release c pl in
      res c1 = None \<and>
      Release c1 pl2 = (c1, pl2) \<and>
      Release c1 pl1 = Release c pl \<and>
      Hijack c1 pl2 = Inl (Panic ''cannot hijack already released or hijacked connection''))
   \<and> (\<forall>cn c1 pl1. Hijack c pl = Inr (cn, c1, pl1) \<longrightarrow>
        res c1 = None \<and>
        Release c1 pl2 = (c1, pl2) \<and>
        Hijack c1 pl2 = Inl (Panic ''cannot hijack already released or hijacked connection''))"
  by (auto simp: Release_def Hijack_def Let_def split: option.splits)

theorem Release_Hijack_once_witness:
  "Hijack \<lparr>res = Some ex_healthy_res\<rparr> ex_pool =
     Inr (rconn ex_healthy_res, \<lparr>res = None\<rparr>, Resource_Hijack ex_healthy_res ex_pool) \<and>
   Release \<lparr>res = None\<rparr> ex_pool = (\<lparr>res = None\<rparr>, ex_pool) \<and>
   Hijack \<lparr>res = None\<rparr> ex_pool =
     Inl (Panic ''cannot hijack already released or hijacked connection'')"
  using Release_Hijack_once [of "\<lparr>res = Some ex_healthy_res\<rparr>" ex_pool ex_pool]
  by (simp add: Hijack_def)

section \<open>Properties of the batch\<close>

subsection \<open>What the read loops leave alone\<close>

lemma same_but_rx_refl: "same_but_rx c c"
  by (simp add: same_but_rx_def)

lemma same_but_rx_trans: "same_but_rx c c1 \<Longrightarrow> same_but_rx c1 c2 \<Longrightarrow> same_but_rx c c2"
  by (simp add: same_but_rx_def)

lemma rxMsg_same: "rxMsg c = Some (x, c1) \<Longrightarrow> same_but_rx c c1"
  by (auto simp: rxMsg_def same_but_rx_def split: list.splits rx_event.splits)

lemma processContextFreeMsg_same: "processContextFreeMsg m c = (e, c1) \<Longrightarrow> same_but_rx c c1"
  by (auto simp: processContextFreeMsg_def same_but_rx_def split: bmsg.splits)

lemma ensureConnectionReadyForQuery_same:
  "ensureConnectionReadyForQuery c = Some (e, c1) \<Longrightarrow> same_but_rx c c1"
proof (induction c rule: ensureConnectionReadyForQuery.induct)
  case (1 c)
  show ?case
  proof (cases "0 < sint (pendingReadyForQueryCount c)")
    case False
    with "1.prems" show ?thesis
      by (simp add: ensureConnectionReadyForQuery.simps [of c] same_but_rx_refl)
  next
    case True
    with "1.prems" obtain x c' where rx: "rxMsg c = Some (x, c')"
      by (cases "rxMsg c") (auto simp: ensureConnectionReadyForQuery.simps [of c])
    show ?thesis
    proof (cases x)
      case (Inl e')
      with "1.prems" True rx show ?thesis
        by (auto simp: ensureConnectionReadyForQuery.simps [of c] dest: rxMsg_same)
    next
      case (Inr m)
      obtain e2 c2 where p: "processContextFreeMsg m c' = (e2, c2)"
        by (cases "processContextFreeMsg m c'")
      have s: "same_but_rx c c2"
        using rx p by (blast intro: same_but_rx_trans rxMsg_same processContextFreeMsg_same)
      show ?thesis
      proof (cases e2)
        case (Some e')
        with "1.prems" True rx Inr p s show ?thesis
          by (auto simp: ensureConnectionReadyForQuery.simps [of c])
      next
        case None
        with "1.prems" True rx Inr p have "ensureConnectionReadyForQuery c2 = Some (e, c1)"
          by (auto simp: ensureConnectionReadyForQuery.simps [of c])
        with "1.IH" [OF True rx refl Inr p [symmetric] None] s show ?thesis
          by (blast intro: same_but_rx_trans)
      qed
    qed
  qed
qed

lemma Send_read_same: "Send_read c = Some (e, c1) \<Longrightarrow> same_but_rx c c1"
proof (induction c rule: Send_read.induct)
  case (1 c)
  from "1.prems" obtain x c' where rx: "rxMsg c = Some (x, c')"
    by (cases "rxMsg c") (auto simp: Send_read.simps [of c])
  show ?case
  proof (cases x)
    case (Inl e')
    with "1.prems" rx show ?thesis
      by (auto simp: Send_read.simps [of c] dest: rxMsg_same)
  next
    case (Inr m)
    obtain e2 c2 where p: "processContextFreeMsg m c' = (e2, c2)"
      by (cases "processContextFreeMsg m c'")
    have s: "same_but_rx c c2"
      using rx p by (blast intro: same_but_rx_trans rxMsg_same processContextFreeMsg_same)
    show ?thesis
    proof (cases "\<exists>t. m = ReadyForQuery t")
      case True
      with "1.prems" rx Inr show ?thesis
        by (auto simp: Send_read.simps [of c] dest: rxMsg_same)
    next
      case notrfq: False
      show ?thesis
      proof (cases e2)
        case (Some e')
        with "1.prems" rx Inr p s notrfq show ?thesis
          by (cases m) (auto simp: Send_read.simps [of c])
      next
        case None
        with "1.prems" rx Inr p notrfq have "Send_read c2 = Some (e, c1)"
          by (cases m) (auto simp: Send_read.simps [of c])
        moreover have "Send_read c2 = Some (e, c1) \<Longrightarrow> same_but_rx c2 c1"
          using notrfq "1.IH" [OF rx refl Inr _ p [symmetric] None]
          by (cases m) auto
        ultimately show ?thesis
          using s by (blast intro: same_but_rx_trans)
      qed
    qed
  qed
qed

subsection \<open>The example batches, run\<close>

lemmas ex_defs =
  ex_batch1_def ex_batch2_def ex_sent1_def ex_sent2_def ex_conn_def ex_answers1_def
  ex_answers2_def ex_answers2_fail_def ex_beginSQL_def ex_fatalWriteErr_def Queue_def BeginBatch_def

lemmas run_defs =
  rxMsg_def processContextFreeMsg_def appendQuery_def appendParse_def appendBind_def
  appendDescribe_def appendExecute_def appendSync_def Let_def die_def release_to_pool_def
  Conn_die_def ConnPool_Release_def Close_deferred_def
  ensureConnectionReadyForQuery.simps Send_read.simps ExecResults_read.simps
  readUntilRowDescription.simps Close_loop.simps

lemma ex_Send1:
  "Send ex_beginSQL ex_fatalWriteErr None '''' (ex_batch1 ex_answers1) =
     Returns None (ex_sent1 2 0 (drop 2 ex_answers1))"
  by (simp add: Send_def ex_defs run_defs)

lemma ex_Send1_fails:
  "Send ex_beginSQL ex_fatalWriteErr None '''' (ex_batch1 [RecvError (Error ''EOF'')]) =
     Returns (Some (Error ''EOF'')) (ex_sent1 2 0 [])"
  by (simp add: Send_def ex_defs run_defs)

lemma ex_Send2:
  "Send ex_beginSQL ex_fatalWriteErr None '' read only'' (ex_batch2 ex_answers2) =
     Returns None (ex_sent2 2 0 0 (drop 2 ex_answers2))"
  by (simp add: Send_def ex_defs run_defs)

lemma ex_Exec1:
  "ExecResults (ex_sent1 2 0 (drop 2 ex_answers1)) =
     Returns (''INSERT 0 1'', None) (ex_sent1 2 1 (drop 6 ex_answers1))"
  by (simp add: ExecResults_def ex_defs run_defs)

lemma ex_Exec1_again:
  "ExecResults (ex_sent1 2 1 (drop 6 ex_answers1)) =
     Returns (''COMMIT'', None) (ex_sent1 1 2 (drop 8 ex_answers1))"
  by (simp add: ExecResults_def ex_defs run_defs)

lemma ex_Close1:
  "Close (ex_sent1 1 2 (drop 8 ex_answers1)) = Returns None (ex_sent1 0 2 [])"
  by (simp add: Close_def ExecResults_def ex_defs run_defs)

lemma ex_Close2:
  "Close (ex_sent2 2 1 0 (drop 5 ex_answers2)) = Returns None (ex_sent2 0 2 1 [])"
  by (simp add: Close_def ExecResults_def ex_defs run_defs)


subsection \<open>Send\<close>

lemma Send_items_Cons:
  "Send_items c buf (bi # bis) =
     (case ConnInfo c
             (case preparedStatements c (query bi) of
                Some ps \<Rightarrow> ParameterOids ps | None \<Rightarrow> parameterOids bi)
             (arguments bi) of
        Some e \<Rightarrow> Inl e
      | None \<Rightarrow> Send_items c (buf @ spec_item_frames c bi) bis)"
  by (simp add: spec_item_frames_def appendParse_def appendBind_def appendDescribe_def
      appendExecute_def split: option.splits)

lemma Send_items_frames:
  "Send_items c buf its = Inr buf' \<Longrightarrow> buf' = buf @ concat (map (spec_item_frames c) its)"
proof (induction its arbitrary: buf)
  case Nil
  then show ?case by simp
next
  case (Cons bi bis)
  from Cons.prems have "Send_items c (buf @ spec_item_frames c bi) bis = Inr buf'"
    by (auto simp: Send_items_Cons simp del: Send_items.simps split: option.splits)
  from Cons.IH [OF this] show ?case by simp
qed

text \<open>
  C4. When \<open>Send\<close> returns without error, the connection has transmitted exactly one more
  buffer than before. That buffer is the connection's write buffer \<open>wbuf\<close> (the scratch
  buffer that the frames are appended to; nothing in the source files puts anything in
  it) followed by: the begin statement of the transaction options; for each queued item
  in order its Parse (left out, and the cached name and parameter types used in the Bind,
  exactly when the statement text is a key of \<open>preparedStatements\<close>), its Bind with the
  item's arguments and result formats, a Describe of the unnamed portal and an Execute
  with row limit 0; one Sync; and the statement \<open>commit\<close>.
\<close>

theorem Send_transmission:
  assumes "Send beginSQL fatalWriteErr cx txOptions b = Returns None b'"
  shows "writes (conn b') =
           writes (conn b) @
             [wbuf (conn b) @ spec_transmission (beginSQL txOptions) (conn b) (items b)]"
proof -
  from assms obtain c1 buf0 n e c4 where
    ens: "ensureConnectionReadyForQuery (conn b) = Some (None, c1)" and
    its: "Send_items c1 (appendQuery (wbuf c1) (beginSQL txOptions)) (items b) = Inr buf0" and
    rd: "Send_read (c1\<lparr>writes := writes c1 @ [appendQuery (appendSync buf0) ''commit''],
                       pendingReadyForQueryCount := pendingReadyForQueryCount c1 + 2\<rparr>)
           = Some (e, c4)" and
    b': "conn b' = c4"
    by (auto simp: Send_def Let_def split: option.splits sum.splits prod.splits if_splits)
  have f1: "wbuf c1 = wbuf (conn b)" "writes c1 = writes (conn b)"
    "preparedStatements c1 = preparedStatements (conn b)"
    using ensureConnectionReadyForQuery_same [OF ens] by (simp_all add: same_but_rx_def)
  have sf: "spec_item_frames c1 = spec_item_frames (conn b)"
    by (rule ext) (simp add: spec_item_frames_def f1)
  have "writes c4 = writes c1 @ [appendQuery (appendSync buf0) ''commit'']"
    using Send_read_same [OF rd] by (simp add: same_but_rx_def)
  moreover have "buf0 = wbuf c1 @ [QueryMsg (beginSQL txOptions)] @
      concat (map (spec_item_frames c1) (items b))"
    using Send_items_frames [OF its] by (simp add: appendQuery_def)
  ultimately show ?thesis
    by (simp add: b' f1 sf spec_transmission_def appendQuery_def appendSync_def)
qed


theorem Send_transmission_witness:
  "Send ex_beginSQL ex_fatalWriteErr None '' read only'' (ex_batch2 ex_answers2) =
     Returns None (ex_sent2 2 0 0 (drop 2 ex_answers2)) \<and>
   writes (conn (ex_sent2 2 0 0 (drop 2 ex_answers2))) =
     [[QueryMsg ''begin read only'',
       BindMsg '''' ''ps1'' [23] [ArgInt 4] [],
       DescribeMsg CHR ''P'' '''', ExecuteMsg '''' 0,
       ParseMsg '''' ''insert into t values ($1)'' [23],
       BindMsg '''' '''' [23] [ArgInt 5] [1],
       DescribeMsg CHR ''P'' '''', ExecuteMsg '''' 0,
       SyncMsg, QueryMsg ''commit'']]"
  using Send_transmission [OF ex_Send2] ex_Send2
  by (simp add: ex_defs spec_transmission_def spec_item_frames_def)

lemma Send_read_step:
  "Send_read c =
     (case inbox c of
        [] \<Rightarrow> None
      | ev # rest \<Rightarrow>
          if is_ReadyForQuery ev then Some (None, c\<lparr>inbox := rest\<rparr>)
          else (case failure_of ev of
                  Some e \<Rightarrow> Some (Some e, c\<lparr>inbox := rest\<rparr>)
                | None \<Rightarrow> Send_read (c\<lparr>inbox := rest\<rparr>)))"
  by (subst Send_read.simps)
    (simp add: rxMsg_def processContextFreeMsg_def split: list.splits rx_event.splits bmsg.splits)

lemma Send_read_consumes:
  "Send_read c = Some (r, c') \<Longrightarrow>
     pendingReadyForQueryCount c' = pendingReadyForQueryCount c \<and>
     (\<exists>pre ev. inbox c = pre @ ev # inbox c' \<and>
        (\<forall>x \<in> set pre. \<not> is_ReadyForQuery x \<and> failure_of x = None) \<and>
        failure_of ev = r \<and> (r = None \<longrightarrow> is_ReadyForQuery ev))"
proof (induction "inbox c" arbitrary: c)
  case Nil
  then show ?case
    by (simp add: Send_read_step [of c])
next
  case (Cons ev rest)
  from Cons.hyps(2) have ib: "inbox c = ev # rest" by simp
  show ?case
  proof (cases "is_ReadyForQuery ev")
    case True
    then have "failure_of ev = None"
      by (cases ev rule: is_ReadyForQuery.cases) simp_all
    with Cons.prems ib True show ?thesis
      by (auto simp: Send_read_step [of c] intro!: exI [of _ "[]"])
  next
    case nrfq: False
    show ?thesis
    proof (cases "failure_of ev")
      case (Some e)
      with Cons.prems ib nrfq show ?thesis
        by (auto simp: Send_read_step [of c] intro!: exI [of _ "[]"])
    next
      case None
      with Cons.prems ib nrfq have rec: "Send_read (c\<lparr>inbox := rest\<rparr>) = Some (r, c')"
        by (simp add: Send_read_step [of c])
      have "rest = inbox (c\<lparr>inbox := rest\<rparr>)" by simp
      from Cons.hyps(1) [OF this rec] obtain pre ev' where
        k: "pendingReadyForQueryCount c' = pendingReadyForQueryCount c" and
        p: "rest = pre @ ev' # inbox c'" and
        q: "\<forall>x \<in> set pre. \<not> is_ReadyForQuery x \<and> failure_of x = None" and
        f: "failure_of ev' = r" "r = None \<longrightarrow> is_ReadyForQuery ev'"
        by auto
      have "inbox c = (ev # pre) @ ev' # inbox c'"
        using ib p by simp
      moreover have "\<forall>x \<in> set (ev # pre). \<not> is_ReadyForQuery x \<and> failure_of x = None"
        using q nrfq None by simp
      ultimately show ?thesis
        using k f by (intro conjI exI [of _ "ev # pre"] exI [of _ ev']) simp_all
    qed
  qed
qed

lemma Send_written:
  assumes S: "Send beginSQL fatalWriteErr cx txOptions b = Returns r b'"
    and W: "writes (conn b') \<noteq> writes (conn b)"
  obtains c1 buf0 c4 where
    "ensureConnectionReadyForQuery (conn b) = Some (None, c1)"
    "Send_read (c1\<lparr>writes := writes c1 @ [appendQuery (appendSync buf0) ''commit''],
                  pendingReadyForQueryCount := pendingReadyForQueryCount c1 + 2\<rparr>)
       = Some (r, c4)"
    "b' = b\<lparr>ctx := Some cx, conn := c4, sent := True\<rparr>"
proof -
  have e0: "err b = None"
  proof (cases "err b")
    case (Some e)
    with S have "b' = b" by (simp add: Send_def)
    with W show ?thesis by simp
  qed simp
  have w0: "waitForPreviousCancelQuery (conn b) cx = None"
  proof (cases "waitForPreviousCancelQuery (conn b) cx")
    case (Some e)
    with S e0 have "b' = b\<lparr>ctx := Some cx\<rparr>" by (simp add: Send_def Let_def)
    with W show ?thesis by simp
  qed simp
  obtain eo c1 where ens: "ensureConnectionReadyForQuery (conn b) = Some (eo, c1)"
    using S e0 w0 by (cases "ensureConnectionReadyForQuery (conn b)") (auto simp: Send_def Let_def)
  have c1: "writes c1 = writes (conn b)"
    using ensureConnectionReadyForQuery_same [OF ens] by (simp add: same_but_rx_def)
  have eo: "eo = None"
  proof (cases eo)
    case (Some e)
    with S e0 w0 ens have "b' = b\<lparr>ctx := Some cx, conn := c1\<rparr>" by (simp add: Send_def Let_def)
    with W c1 show ?thesis by simp
  qed simp
  have i0: "initContext c1 cx = None"
  proof (cases "initContext c1 cx")
    case (Some e)
    with S e0 w0 ens eo have "b' = b\<lparr>ctx := Some cx, conn := c1\<rparr>"
      by (simp add: Send_def Let_def)
    with W c1 show ?thesis by simp
  qed simp
  obtain buf0 where
    its: "Send_items c1 (appendQuery (wbuf c1) (beginSQL txOptions)) (items b) = Inr buf0"
  proof (cases "Send_items c1 (appendQuery (wbuf c1) (beginSQL txOptions)) (items b)")
    case (Inl e)
    with S e0 w0 ens eo i0 have "b' = b\<lparr>ctx := Some cx, conn := c1\<rparr>"
      by (simp add: Send_def Let_def)
    with W c1 show ?thesis by simp
  qed (rule that)
  obtain n wo where nw: "netWrite c1 (appendQuery (appendSync buf0) ''commit'') = (n, wo)"
    by (cases "netWrite c1 (appendQuery (appendSync buf0) ''commit'')")
  have wo: "wo = None"
  proof (cases wo)
    case (Some e)
    with S e0 w0 ens eo i0 its nw have
      "b' = b\<lparr>ctx := Some cx, conn := (if fatalWriteErr n e then Conn_die (Some e) c1 else c1)\<rparr>"
      by (simp add: Send_def Let_def)
    with W c1 show ?thesis by (simp add: Conn_die_def split: if_splits)
  qed simp
  let ?c3 = "c1\<lparr>writes := writes c1 @ [appendQuery (appendSync buf0) ''commit''],
                  pendingReadyForQueryCount := pendingReadyForQueryCount c1 + 2\<rparr>"
  have unf: "Send beginSQL fatalWriteErr cx txOptions b =
      (case Send_read ?c3 of
         None \<Rightarrow> Blocks
       | Some (e, c4) \<Rightarrow> Returns e (b\<lparr>ctx := Some cx, conn := c4, sent := True\<rparr>))"
    using e0 w0 ens eo i0 its nw wo
    by (simp add: Send_def Let_def split: option.splits prod.splits)
  with S obtain c4 where "Send_read ?c3 = Some (r, c4)"
    "b' = b\<lparr>ctx := Some cx, conn := c4, sent := True\<rparr>"
    by (cases "Send_read ?c3") auto
  with ens eo show ?thesis
    by (auto intro: that)
qed

text \<open>
  C5, as the code has it. \<open>Send\<close> returns, and during the call the connection transmitted
  a buffer (the write succeeded). Then the batch is marked as sent, whether \<open>Send\<close>
  returns an error or not. The count of outstanding acknowledgements is the count that
  \<open>ensureConnectionReadyForQuery\<close> left, plus exactly 2. After the write \<open>Send\<close> consumed
  events of the network up to and including one event \<open>ev\<close>: the events before it are
  neither a ReadyForQuery nor a failure; \<open>Send\<close> returns the failure of \<open>ev\<close>, and when
  it returns no error then \<open>ev\<close> is a ReadyForQuery.
\<close>

theorem Send_after_write:
  assumes "Send beginSQL fatalWriteErr cx txOptions b = Returns r b'"
    and "writes (conn b') \<noteq> writes (conn b)"
  shows "sent b' \<and>
         (\<exists>c1. ensureConnectionReadyForQuery (conn b) = Some (None, c1) \<and>
            pendingReadyForQueryCount (conn b') = pendingReadyForQueryCount c1 + 2 \<and>
            (\<exists>pre ev. inbox c1 = pre @ ev # inbox (conn b') \<and>
               (\<forall>x \<in> set pre. \<not> is_ReadyForQuery x \<and> failure_of x = None) \<and>
               failure_of ev = r \<and> (r = None \<longrightarrow> is_ReadyForQuery ev)))"
proof -
  from assms obtain c1 buf0 c4 where
    ens: "ensureConnectionReadyForQuery (conn b) = Some (None, c1)" and
    rd: "Send_read (c1\<lparr>writes := writes c1 @ [appendQuery (appendSync buf0) ''commit''],
                       pendingReadyForQueryCount := pendingReadyForQueryCount c1 + 2\<rparr>)
           = Some (r, c4)" and
    b': "b' = b\<lparr>ctx := Some cx, conn := c4, sent := True\<rparr>"
    by (rule Send_written)
  from Send_read_consumes [OF rd] ens b' show ?thesis
    by simp
qed

theorem Send_after_write_witness:
  "Send ex_beginSQL ex_fatalWriteErr None '''' (ex_batch1 ex_answers1) =
     Returns None (ex_sent1 2 0 (drop 2 ex_answers1)) \<and>
   writes (conn (ex_sent1 2 0 (drop 2 ex_answers1))) \<noteq> writes (conn (ex_batch1 ex_answers1)) \<and>
   sent (ex_sent1 2 0 (drop 2 ex_answers1)) \<and>
   pendingReadyForQueryCount (conn (ex_sent1 2 0 (drop 2 ex_answers1))) =
     pendingReadyForQueryCount (conn (ex_batch1 ex_answers1)) + 2"
proof -
  have w: "writes (conn (ex_sent1 2 0 (drop 2 ex_answers1))) \<noteq>
      writes (conn (ex_batch1 ex_answers1))"
    by (simp add: ex_defs)
  from Send_after_write [OF ex_Send1 w] ex_Send1 w show ?thesis
    by (simp add: ex_defs)
qed

text \<open>
  C5 as the claim states it fails: the server's stream breaks before any ReadyForQuery
  arrives, \<open>Send\<close> returns the error of the receive, and the batch, which was not marked
  as sent before, is marked as sent.
\<close>

theorem Send_failed_read_counterexample:
  "Send ex_beginSQL ex_fatalWriteErr None '''' (ex_batch1 [RecvError (Error ''EOF'')]) =
     Returns (Some (Error ''EOF'')) (ex_sent1 2 0 []) \<and>
   \<not> sent (ex_batch1 [RecvError (Error ''EOF'')]) \<and>
   sent (ex_sent1 2 0 [])"
  using ex_Send1_fails by (simp add: ex_defs)

subsection \<open>Close\<close>

lemma Close_loop_times:
  "n = nat (int (length (items b)) - i) \<Longrightarrow> Close_loop i b = ExecResults_times n b"
proof (induction n arbitrary: i b)
  case 0
  then show ?case
    by (simp add: Close_loop.simps [of i b])
next
  case (Suc n)
  then have lt: "i < int (length (items b))" by simp
  have step: "Close_loop (i + 1) b1 = ExecResults_times n b1"
    if "ExecResults b = Returns r b1" for r b1
  proof (rule Suc.IH)
    from that have "items b1 = items b" by (rule ExecResults_items)
    with Suc.prems show "n = nat (int (length (items b1)) - (i + 1))" by simp
  qed
  show ?case
  proof (cases "ExecResults b")
    case (Returns r b1)
    obtain t e where r: "r = (t, e)" by (cases r)
    from step [OF Returns] lt Returns r show ?thesis
      by (cases e) (simp_all add: Close_loop.simps [of i b])
  qed (simp_all add: lt Close_loop.simps [of i b])
qed

lemma ExecResults_cursor:
  "ExecResults b = Returns (t, None) b1 \<Longrightarrow> resultsRead b1 = resultsRead b + 1"
  by (auto simp: ExecResults_def Let_def split: option.splits)

lemma ExecResults_times_cursor:
  "ExecResults_times n b = Returns None b1 \<Longrightarrow> resultsRead b1 = resultsRead b + int n"
proof (induction n arbitrary: b)
  case 0
  then show ?case by simp
next
  case (Suc n)
  from Suc.prems obtain t b2 where
    e: "ExecResults b = Returns (t, None) b2" and r: "ExecResults_times n b2 = Returns None b1"
    by (auto split: outcome.splits option.splits prod.splits)
  from Suc.IH [OF r] ExecResults_cursor [OF e] show ?case by simp
qed

text \<open>
  C6, as the code has it. A batch has no sticky error and its read cursor \<open>k\<close> is below
  the number \<open>N\<close> of queued items. Then \<open>Close\<close> calls \<open>ExecResults\<close> for the items that
  are left, one call after the other, for as long as the calls succeed. If all \<open>N - k\<close>
  calls succeed, the cursor is at \<open>N\<close> and \<open>ensureConnectionReadyForQuery\<close> is run on the
  connection; its error is the error of \<open>Close\<close>. If a call fails, its error is the error
  of \<open>Close\<close> and neither the other calls nor \<open>ensureConnectionReadyForQuery\<close> are made.
  In both cases the deferred function comes last and releases the connection to the pool.
\<close>

theorem Close_consumes_remaining:
  assumes "err b = None" and "resultsRead b < int (length (items b))"
  shows "Close b =
           Close_deferred
             (case ExecResults_times (nat (int (length (items b)) - resultsRead b)) b of
                Returns (Some e) b1 \<Rightarrow> Returns (Some e) b1
              | Returns None b1 \<Rightarrow>
                  (case ensureConnectionReadyForQuery (conn b1) of
                     None \<Rightarrow> Blocks
                   | Some (e, c1) \<Rightarrow> Returns e (b1\<lparr>conn := c1\<rparr>))
              | Panics b1 \<Rightarrow> Panics b1
              | Blocks \<Rightarrow> Blocks)
       \<and> (\<forall>b1. ExecResults_times (nat (int (length (items b)) - resultsRead b)) b
                  = Returns None b1 \<longrightarrow>
             resultsRead b1 = int (length (items b)))"
proof -
  have "Close_loop (resultsRead b) b =
      ExecResults_times (nat (int (length (items b)) - resultsRead b)) b"
    by (rule Close_loop_times) simp
  with assms(1) have "Close b =
           Close_deferred
             (case ExecResults_times (nat (int (length (items b)) - resultsRead b)) b of
                Returns (Some e) b1 \<Rightarrow> Returns (Some e) b1
              | Returns None b1 \<Rightarrow>
                  (case ensureConnectionReadyForQuery (conn b1) of
                     None \<Rightarrow> Blocks
                   | Some (e, c1) \<Rightarrow> Returns e (b1\<lparr>conn := c1\<rparr>))
              | Panics b1 \<Rightarrow> Panics b1
              | Blocks \<Rightarrow> Blocks)"
    by (auto simp: Close_def split: outcome.splits option.splits prod.splits
        intro!: arg_cong [where f = Close_deferred])
  moreover have "resultsRead b1 = int (length (items b))"
    if "ExecResults_times (nat (int (length (items b)) - resultsRead b)) b = Returns None b1"
    for b1
    using ExecResults_times_cursor [OF that] assms(2) by simp
  ultimately show ?thesis by blast
qed

theorem Close_consumes_remaining_witness:
  "err (ex_sent2 2 1 0 (drop 5 ex_answers2)) = None \<and>
   resultsRead (ex_sent2 2 1 0 (drop 5 ex_answers2)) = 1 \<and>
   length (items (ex_sent2 2 1 0 (drop 5 ex_answers2))) = 2 \<and>
   ExecResults_times 1 (ex_sent2 2 1 0 (drop 5 ex_answers2)) =
     Returns None (ex_sent2 2 2 0 (drop 9 ex_answers2)) \<and>
   ensureConnectionReadyForQuery (conn (ex_sent2 2 2 0 (drop 9 ex_answers2))) =
     Some (None, conn (ex_sent2 0 2 0 [])) \<and>
   Close (ex_sent2 2 1 0 (drop 5 ex_answers2)) = Returns None (ex_sent2 0 2 1 [])"
proof -
  have h: "err (ex_sent2 2 1 0 (drop 5 ex_answers2)) = None"
    "resultsRead (ex_sent2 2 1 0 (drop 5 ex_answers2)) <
       int (length (items (ex_sent2 2 1 0 (drop 5 ex_answers2))))"
    by (simp_all add: ex_defs)
  have t: "ExecResults_times 1 (ex_sent2 2 1 0 (drop 5 ex_answers2)) =
      Returns None (ex_sent2 2 2 0 (drop 9 ex_answers2))"
    by (simp add: ExecResults_def ex_defs run_defs)
  have e: "ensureConnectionReadyForQuery (conn (ex_sent2 2 2 0 (drop 9 ex_answers2))) =
      Some (None, conn (ex_sent2 0 2 0 []))"
    by (simp add: ex_defs run_defs)
  from Close_consumes_remaining [OF h] t e show ?thesis
    by (simp add: ex_defs run_defs)
qed

lemma ex_Send2_fail:
  "Send ex_beginSQL ex_fatalWriteErr None '' read only'' (ex_batch2 ex_answers2_fail) =
     Returns None (ex_sent2 2 0 0 (drop 2 ex_answers2_fail))"
  by (simp add: Send_def ex_defs run_defs)

lemma ex_Close2_fail:
  "Close (ex_sent2 2 0 0 (drop 2 ex_answers2_fail)) =
     Returns (Some (Error ''division by zero'')) (ex_sent2 2 1 1 (drop 4 ex_answers2_fail))"
  by (simp add: Close_def ExecResults_def ex_defs run_defs)

text \<open>
  C6 as the claim states it fails: a batch of two statements is sent, the first statement
  fails at the server, and no result has been read. \<open>Close\<close> makes one call of
  \<open>ExecResults\<close>, which returns the error of the server, and returns that error: the
  cursor is at 1 of 2, both acknowledgements are still outstanding and the ReadyForQuery
  messages are unread when the connection goes back to the pool.
\<close>

theorem Close_stops_at_error_counterexample:
  "Send ex_beginSQL ex_fatalWriteErr None '' read only'' (ex_batch2 ex_answers2_fail) =
     Returns None (ex_sent2 2 0 0 (drop 2 ex_answers2_fail)) \<and>
   err (ex_sent2 2 0 0 (drop 2 ex_answers2_fail)) = None \<and>
   resultsRead (ex_sent2 2 0 0 (drop 2 ex_answers2_fail)) = 0 \<and>
   length (items (ex_sent2 2 0 0 (drop 2 ex_answers2_fail))) = 2 \<and>
   Close (ex_sent2 2 0 0 (drop 2 ex_answers2_fail)) =
     Returns (Some (Error ''division by zero'')) (ex_sent2 2 1 1 (drop 4 ex_answers2_fail)) \<and>
   resultsRead (ex_sent2 2 1 1 (drop 4 ex_answers2_fail)) = 1 \<and>
   pendingReadyForQueryCount (conn (ex_sent2 2 1 1 (drop 4 ex_answers2_fail))) = 2 \<and>
   inbox (conn (ex_sent2 2 1 1 (drop 4 ex_answers2_fail))) =
     [Msg (ReadyForQuery CHR ''E''), Msg (CommandComplete ''ROLLBACK''),
      Msg (ReadyForQuery CHR ''I'')]"
  using ex_Send2_fail ex_Close2_fail by (simp add: ex_defs)

lemma ExecResults_pool:
  assumes "err b = None" and "ExecResults b = Returns (t, e) b1"
  shows "(err b1 = None \<and> connPool b1 = connPool b) \<or>
         (err b1 \<noteq> None \<and> e \<noteq> None \<and>
          connPool b1 = map_option ConnPool_Release (connPool b))"
  using assms
  by (auto simp: ExecResults_def Let_def die_def release_to_pool_def
      split: option.splits)

lemma ExecResults_Panics: "ExecResults b = Panics b1 \<Longrightarrow> b1 = b"
  by (auto simp: ExecResults_def Let_def split: option.splits)

lemma ExecResults_times_pool:
  assumes "err b = None" and "state_after (ExecResults_times n b) = Some b1"
  shows "(err b1 = None \<and> connPool b1 = connPool b) \<or>
         (err b1 \<noteq> None \<and> connPool b1 = map_option ConnPool_Release (connPool b))"
  using assms
proof (induction n arbitrary: b)
  case 0
  then show ?case by simp
next
  case (Suc n)
  show ?case
  proof (cases "ExecResults b")
    case (Returns r b2)
    obtain t e where r: "r = (t, e)" by (cases r)
    note p = ExecResults_pool [OF Suc.prems(1) Returns [unfolded r]]
    show ?thesis
    proof (cases e)
      case None
      with p have "err b2 = None" "connPool b2 = connPool b" by auto
      moreover from Suc.prems(2) Returns r None
      have "state_after (ExecResults_times n b2) = Some b1" by simp
      ultimately show ?thesis using Suc.IH [of b2] by simp
    next
      case (Some e')
      with Suc.prems(2) Returns r have "b1 = b2" by simp
      with p show ?thesis by auto
    qed
  next
    case (Panics b2)
    with Suc.prems show ?thesis
      by (auto dest: ExecResults_Panics)
  next
    case Blocks
    with Suc.prems show ?thesis by simp
  qed
qed

lemma Close_body_pool:
  assumes "err b = None"
    and "state_after
           (case ExecResults_times n b of
              Returns (Some e) b1 \<Rightarrow> Returns (Some e) b1
            | Returns None b1 \<Rightarrow>
                (case ensureConnectionReadyForQuery (conn b1) of
                   None \<Rightarrow> Blocks
                 | Some (Some e, c1) \<Rightarrow> Returns (Some e) (b1\<lparr>conn := c1\<rparr>)
                 | Some (None, c1) \<Rightarrow> Returns None (b1\<lparr>conn := c1\<rparr>))
            | Panics b1 \<Rightarrow> Panics b1
            | Blocks \<Rightarrow> Blocks) = Some b2"
  shows "(err b2 = None \<and> connPool b2 = connPool b) \<or>
         (err b2 \<noteq> None \<and> connPool b2 = map_option ConnPool_Release (connPool b))"
proof (cases "ExecResults_times n b")
  case (Returns r b1)
  from ExecResults_times_pool [OF assms(1), of n b1] Returns
  have p: "(err b1 = None \<and> connPool b1 = connPool b) \<or>
         (err b1 \<noteq> None \<and> connPool b1 = map_option ConnPool_Release (connPool b))"
    by simp
  from assms(2) Returns have "err b2 = err b1 \<and> connPool b2 = connPool b1"
    by (auto split: option.splits prod.splits)
  with p show ?thesis by simp
next
  case (Panics b1)
  with ExecResults_times_pool [OF assms(1), of n b1] assms(2) show ?thesis by simp
next
  case Blocks
  with assms(2) show ?thesis by simp
qed

text \<open>
  C7, as the code has it. If a sticky error exists, \<open>Close\<close> returns it at once and
  changes nothing: the deferred function is not set up yet and nothing is released
  (\<open>die\<close> released the connection when it recorded the error). If none exists and the
  batch belongs to a pool, then on every path on which \<open>Close\<close> ends, return or panic, the
  deferred function has released the connection: the pool counts one more release than
  before, or two more when \<open>die\<close> released it as well during the call, which is the case
  exactly when the batch ends with a sticky error.
\<close>

theorem Close_releases_unless_sticky:
  "(err b = Some e \<longrightarrow> Close b = Returns (Some e) b)
   \<and> (err b = None \<and> connPool b = Some pl \<and> state_after (Close b) = Some b' \<longrightarrow>
        connPool b' =
          Some (pl\<lparr>releaseCalls := releaseCalls pl + (if err b' = None then 1 else 2)\<rparr>))"
proof (intro conjI impI)
  assume "err b = Some e"
  then show "Close b = Returns (Some e) b"
    by (simp add: Close_def)
next
  assume a: "err b = None \<and> connPool b = Some pl \<and> state_after (Close b) = Some b'"
  let ?body = "case ExecResults_times (nat (int (length (items b)) - resultsRead b)) b of
              Returns (Some e) b1 \<Rightarrow> Returns (Some e) b1
            | Returns None b1 \<Rightarrow>
                (case ensureConnectionReadyForQuery (conn b1) of
                   None \<Rightarrow> Blocks
                 | Some (Some e, c1) \<Rightarrow> Returns (Some e) (b1\<lparr>conn := c1\<rparr>)
                 | Some (None, c1) \<Rightarrow> Returns None (b1\<lparr>conn := c1\<rparr>))
            | Panics b1 \<Rightarrow> Panics b1
            | Blocks \<Rightarrow> Blocks"
  have "Close_loop (resultsRead b) b =
      ExecResults_times (nat (int (length (items b)) - resultsRead b)) b"
    by (rule Close_loop_times) simp
  with a have c: "Close b = Close_deferred ?body"
    by (simp add: Close_def)
  with a obtain b2 where b2: "state_after ?body = Some b2" and b': "b' = release_to_pool b2"
    by (cases ?body) (auto simp: Close_deferred_def)
  from Close_body_pool [OF _ b2] a
  have "(err b2 = None \<and> connPool b2 = Some pl) \<or>
        (err b2 \<noteq> None \<and> connPool b2 = Some (ConnPool_Release pl))"
    by simp
  with b' show "connPool b' =
      Some (pl\<lparr>releaseCalls := releaseCalls pl + (if err b' = None then 1 else 2)\<rparr>)"
    by (auto simp: release_to_pool_def ConnPool_Release_def)
qed

theorem Close_releases_unless_sticky_witness:
  "err (ex_sent2 2 1 0 (drop 5 ex_answers2)) = None \<and>
   connPool (ex_sent2 2 1 0 (drop 5 ex_answers2)) = Some \<lparr>releaseCalls = 0\<rparr> \<and>
   state_after (Close (ex_sent2 2 1 0 (drop 5 ex_answers2))) = Some (ex_sent2 0 2 1 []) \<and>
   connPool (ex_sent2 0 2 1 []) = Some \<lparr>releaseCalls = 1\<rparr>"
  using Close_releases_unless_sticky
    [of "ex_sent2 2 1 0 (drop 5 ex_answers2)" "Error ''none''" "\<lparr>releaseCalls = 0\<rparr>" "ex_sent2 0 2 1 []"]
    ex_Close2
  by (simp add: ex_defs)

text \<open>
  C7 as the claim states it fails: a pooled batch whose context was cancelled has a sticky
  error, recorded by \<open>die\<close>, which released the connection once. \<open>Close\<close> returns the
  error and leaves the batch as it is: the pool still counts that one release.
\<close>

theorem Close_sticky_counterexample:
  "err (die (Some (Error ''context canceled'')) (ex_sent2 2 1 0 [])) =
     Some (Error ''context canceled'') \<and>
   connPool (die (Some (Error ''context canceled'')) (ex_sent2 2 1 0 [])) =
     Some \<lparr>releaseCalls = 1\<rparr> \<and>
   Close (die (Some (Error ''context canceled'')) (ex_sent2 2 1 0 [])) =
     Returns (Some (Error ''context canceled''))
       (die (Some (Error ''context canceled'')) (ex_sent2 2 1 0 []))"
  by (simp add: Close_def ex_defs run_defs)

subsection \<open>The sticky error\<close>






subsection \<open>Reading more results than were queued\<close>

text \<open>
  C9, as the code has it. No result-reading operation looks at the queued items, so
  none refuses a call on account of their number: with other items queued,
  \<open>ExecResults\<close> and \<open>QueryResults\<close> end the same way and leave the same state. A call
  of \<open>ExecResults\<close> that returns under an open context moves the cursor on by one and
  leaves no sticky error, also beyond the last item. For a batch without sticky error
  whose cursor is at or beyond the number of items, \<open>Close\<close> force-consumes nothing: it
  runs \<open>ensureConnectionReadyForQuery\<close>, returns its error, and the deferred function
  releases the connection.
\<close>

theorem reading_past_the_end:
  "ExecResults (b\<lparr>items := its\<rparr>) = with_items its (ExecResults b)
   \<and> QueryResults (b\<lparr>items := its\<rparr>) = with_items its (QueryResults b)
   \<and> (\<forall>r b1. err b = None \<and> ctx b = Some None \<and> ExecResults b = Returns r b1 \<longrightarrow>
        err b1 = None \<and> resultsRead b1 = resultsRead b + 1 \<and> items b1 = items b)
   \<and> (err b = None \<and> int (length (items b)) \<le> resultsRead b \<longrightarrow>
        Close b =
          Close_deferred
            (case ensureConnectionReadyForQuery (conn b) of
               None \<Rightarrow> Blocks
             | Some (e, c1) \<Rightarrow> Returns e (b\<lparr>conn := c1\<rparr>)))"
proof (intro conjI impI allI)
  show "ExecResults (b\<lparr>items := its\<rparr>) = with_items its (ExecResults b)"
    by (simp add: ExecResults_def Let_def die_def release_to_pool_def
        split: option.splits prod.splits)
  show "QueryResults (b\<lparr>items := its\<rparr>) = with_items its (QueryResults b)"
    by (simp add: QueryResults_def Let_def die_def release_to_pool_def getRows_def
        split: option.splits prod.splits)
next
  fix r b1
  assume a: "err b = None \<and> ctx b = Some None \<and> ExecResults b = Returns r b1"
  then show "err b1 = None" "resultsRead b1 = resultsRead b + 1" "items b1 = items b"
    by (auto simp: ExecResults_def Let_def split: option.splits)
next
  assume a: "err b = None \<and> int (length (items b)) \<le> resultsRead b"
  then have "Close_loop (resultsRead b) b = Returns None b"
    by (simp add: Close_loop.simps [of "resultsRead b" b])
  with a show "Close b =
          Close_deferred
            (case ensureConnectionReadyForQuery (conn b) of
               None \<Rightarrow> Blocks
             | Some (e, c1) \<Rightarrow> Returns e (b\<lparr>conn := c1\<rparr>))"
    by (auto simp: Close_def split: option.splits prod.splits
        intro!: arg_cong [where f = Close_deferred])
qed

theorem reading_past_the_end_witness:
  "err (ex_sent1 2 1 (drop 6 ex_answers1)) = None \<and>
   ctx (ex_sent1 2 1 (drop 6 ex_answers1)) = Some None \<and>
   int (length (items (ex_sent1 2 1 (drop 6 ex_answers1)))) =
     resultsRead (ex_sent1 2 1 (drop 6 ex_answers1)) \<and>
   ExecResults (ex_sent1 2 1 (drop 6 ex_answers1)) =
     Returns (''COMMIT'', None) (ex_sent1 1 2 (drop 8 ex_answers1)) \<and>
   err (ex_sent1 1 2 (drop 8 ex_answers1)) = None \<and>
   resultsRead (ex_sent1 1 2 (drop 8 ex_answers1)) = 2 \<and>
   Close (ex_sent1 1 2 (drop 8 ex_answers1)) = Returns None (ex_sent1 0 2 [])"
  using reading_past_the_end [where b = "ex_sent1 2 1 (drop 6 ex_answers1)" and its = "[]"]
    reading_past_the_end [where b = "ex_sent1 1 2 (drop 8 ex_answers1)" and its = "[]"]
    ex_Exec1_again ex_Close1
  by (simp add: ex_defs)

text \<open>
  C9 as the claim states it fails: a batch of one item is sent and its one result is
  read; a second \<open>ExecResults\<close> does not fail, it returns the command tag of the
  \<open>commit\<close> that \<open>Send\<close> appended.
\<close>

theorem read_past_end_counterexample:
  "Send ex_beginSQL ex_fatalWriteErr None '''' (ex_batch1 ex_answers1) =
     Returns None (ex_sent1 2 0 (drop 2 ex_answers1)) \<and>
   length (items (ex_batch1 ex_answers1)) = 1 \<and>
   ExecResults (ex_sent1 2 0 (drop 2 ex_answers1)) =
     Returns (''INSERT 0 1'', None) (ex_sent1 2 1 (drop 6 ex_answers1)) \<and>
   ExecResults (ex_sent1 2 1 (drop 6 ex_answers1)) =
     Returns (''COMMIT'', None) (ex_sent1 1 2 (drop 8 ex_answers1))"
  using ex_Send1 ex_Exec1 ex_Exec1_again by (simp add: ex_defs)

subsection \<open>QueryRowResults\<close>

text \<open>
  C10. Whenever \<open>QueryResults\<close> returns an error, the result set it returns is nil, and
  \<open>QueryRowResults\<close> returns the nil row and the same state: its result has no place for
  an error. This covers the three ways in which \<open>QueryResults\<close> fails: with a sticky
  error, with a cancelled context, and with a failed read.
\<close>

theorem QueryRowResults_drops_error:
  "(\<forall>rows e b1. QueryResults b = Returns (rows, Some e) b1 \<longrightarrow>
      rows = None \<and> QueryRowResults b = Returns None b1)
   \<and> (err b = Some sticky \<longrightarrow> QueryRowResults b = Returns None b)
   \<and> (err b = None \<and> ctx b = Some (Some ce) \<longrightarrow>
        QueryRowResults b = Returns None (die (Some ce) b))
   \<and> (\<forall>fs e c1. err b = None \<and> ctx b = Some None \<and>
        readUntilRowDescription (conn b) = Some ((fs, Some e), c1) \<longrightarrow>
        returned (QueryRowResults b) = Some None)"
  by (auto simp: QueryRowResults_def QueryResults_def Let_def split: option.splits prod.splits)

theorem QueryRowResults_drops_error_witness:
  "QueryResults ((ex_sent1 2 0 [])\<lparr>ctx := Some (Some (Error ''context canceled''))\<rparr>) =
     Returns (None, Some (Error ''context canceled''))
       (die (Some (Error ''context canceled''))
          ((ex_sent1 2 0 [])\<lparr>ctx := Some (Some (Error ''context canceled''))\<rparr>)) \<and>
   QueryRowResults ((ex_sent1 2 0 [])\<lparr>ctx := Some (Some (Error ''context canceled''))\<rparr>) =
     Returns None
       (die (Some (Error ''context canceled''))
          ((ex_sent1 2 0 [])\<lparr>ctx := Some (Some (Error ''context canceled''))\<rparr>))"
  using QueryRowResults_drops_error
    [where b = "(ex_sent1 2 0 [])\<lparr>ctx := Some (Some (Error ''context canceled''))\<rparr>" and
        sticky = "Error ''none''" and ce = "Error ''context canceled''"]
  by (simp add: QueryResults_def ex_defs)

end
